theory Spec2Isabelle
  imports Main "HOL-Library.Word"
begin

unbundle bit_operations_syntax

section \<open>ktDNS: the message codec and the zone lookup of \<^verbatim>\<open>ktDNS.py\<close>\<close>

text \<open>
  The handler's static methods are pure functions from byte buffers and zone data to
  byte buffers. A Python \<^verbatim>\<open>bytes\<close> value is a list of 8-bit words, a Python
  \<^verbatim>\<open>str\<close> whose characters come from \<^verbatim>\<open>chr(byte)\<close> is a \<open>string\<close>
  (Isabelle's \<open>char\<close> has exactly the code points 0 to 255), Python's unbounded
  integers are \<open>int\<close>, and every exception the code can raise is a value of \<open>error\<close>
  returned on the left of a sum.
\<close>

subsection \<open>Data model\<close>

type_synonym byte = "8 word"
type_synonym bytes = "byte list"

datatype error = TypeError | ValueError | OverflowError | KeyError

text \<open>
  One entry of a zone's record list: the code reads \<^verbatim>\<open>record['ttl']\<close>, an
  integer, and \<^verbatim>\<open>record['value']\<close>, a string (here with code points below 256).
\<close>

record rr =
  ttl :: int
  "value" :: string

text \<open>
  A zone is the dictionary loaded from one zone file, the zone store the dictionary of
  zones keyed by \<^verbatim>\<open>$origin\<close>. The zone files are not part of the sources, so the
  store is a parameter of every function that reads it. The only keys the handler ever
  looks up in a zone are the type tags \<^verbatim>\<open>'a'\<close> and \<^verbatim>\<open>''\<close>, whose values are
  record lists; the \<^verbatim>\<open>$origin\<close> entry itself is never read again after loading
  and is left out of the zone's model.
\<close>

type_synonym zone = "string \<rightharpoonup> rr list"
type_synonym zones = "string \<rightharpoonup> zone"

subsection \<open>Python primitives used by the handler\<close>

text \<open>
  \<^verbatim>\<open>n.to_bytes(length, byteorder='big')\<close>: the big-endian digits of \<open>n\<close> in base
  256, OverflowError when \<open>n\<close> is negative or does not fit.
\<close>

fun be_bytes :: "nat \<Rightarrow> int \<Rightarrow> bytes" where
  "be_bytes 0 n = []"
| "be_bytes (Suc k) n = be_bytes k (n div 256) @ [word_of_int (n mod 256)]"

definition to_bytes :: "int \<Rightarrow> nat \<Rightarrow> error + bytes" where
  "to_bytes n len = (if n < 0 \<or> 256 ^ len \<le> n then Inl OverflowError else Inr (be_bytes len n))"


text \<open>
  \<^verbatim>\<open>int(s)\<close> and \<^verbatim>\<open>int(s, 2)\<close> on a string: surrounding whitespace is
  stripped, one sign is allowed, then come digits of the base, where single underscores
  may separate digits; anything else is a ValueError. (The \<^verbatim>\<open>0b\<close> prefix that
  base 2 also accepts is not modelled: the only base-2 argument in the code starts
  with the character \<^verbatim>\<open>1\<close>.)
\<close>

definition is_space :: "char \<Rightarrow> bool" where
  "is_space c = ((of_char c :: nat) \<in> {9, 10, 11, 12, 13, 28, 29, 30, 31, 32, 133, 160})"

definition digit_val :: "char \<Rightarrow> nat option" where
  "digit_val c = (let n = (of_char c :: nat) in if 48 \<le> n \<and> n \<le> 57 then Some (n - 48) else None)"

fun parse_digits :: "nat \<Rightarrow> nat \<Rightarrow> bool \<Rightarrow> string \<Rightarrow> nat option" where
  "parse_digits base acc after_digit [] = (if after_digit then Some acc else None)"
| "parse_digits base acc after_digit (c # cs) =
     (if c = CHR ''_'' then (if after_digit then parse_digits base acc False cs else None)
      else (case digit_val c of
              None \<Rightarrow> None
            | Some d \<Rightarrow> if d < base then parse_digits base (acc * base + d) True cs else None))"

definition strip :: "string \<Rightarrow> string" where
  "strip s = rev (dropWhile is_space (rev (dropWhile is_space s)))"

definition py_int :: "nat \<Rightarrow> string \<Rightarrow> error + int" where
  "py_int base s =
     (let t = strip s;
          neg = (t \<noteq> [] \<and> hd t = CHR ''-'');
          u = (if t \<noteq> [] \<and> (hd t = CHR ''-'' \<or> hd t = CHR ''+'') then tl t else t)
      in case parse_digits base 0 False u of
           None \<Rightarrow> Inl ValueError
         | Some n \<Rightarrow> Inr (if neg then - int n else int n))"

text \<open>\<^verbatim>\<open>s.split('.')\<close>: always at least one piece.\<close>

fun split_dot :: "string \<Rightarrow> string list" where
  "split_dot [] = [[]]"
| "split_dot (c # cs) =
     (if c = CHR ''.'' then [] # split_dot cs
      else (case split_dot cs of [] \<Rightarrow> [[c]] | p # ps \<Rightarrow> (c # p) # ps))"

text \<open>\<^verbatim>\<open>'.'.join(domain)\<close>.\<close>

fun join_dot :: "string list \<Rightarrow> string" where
  "join_dot [] = []"
| "join_dot [p] = p"
| "join_dot (p # q # ps) = p @ CHR ''.'' # join_dot (q # ps)"

subsection \<open>\<^verbatim>\<open>Handler.build_answers\<close>\<close>

text \<open>
  The inner loop over the dotted parts of the address:
  \<^verbatim>\<open>Answers += int(part).to_bytes(1, byteorder='big')\<close>.
\<close>

fun address_bytes :: "string list \<Rightarrow> error + bytes" where
  "address_bytes [] = Inr []"
| "address_bytes (part # parts) =
     (case py_int 10 part of
        Inl e \<Rightarrow> Inl e
      | Inr n \<Rightarrow>
          (case to_bytes n 1 of
             Inl e \<Rightarrow> Inl e
           | Inr b \<Rightarrow> (case address_bytes parts of Inl e \<Rightarrow> Inl e | Inr bs \<Rightarrow> Inr (b @ bs))))"

text \<open>
  The bytes one iteration of the loop over \<^verbatim>\<open>records\<close> appends to
  \<^verbatim>\<open>Answers\<close>: the pointer, TYPE and CLASS when the tags are \<^verbatim>\<open>'a'\<close> and
  \<^verbatim>\<open>'IN'\<close>, the TTL, and for the address type RDLENGTH and the address.
\<close>

definition answer_block :: "rr \<Rightarrow> string \<Rightarrow> string \<Rightarrow> error + bytes" where
  "answer_block record' qtype qclass =
     (let pointer = [0xC0, 0x0C];
          type_part = (if qtype = ''a'' then [0, 1] else []);
          class_part = (if qclass = ''IN'' then [0, 1] else [])
      in case to_bytes (ttl record') 4 of
           Inl e \<Rightarrow> Inl e
         | Inr ttl_part \<Rightarrow>
             if qtype = ''a'' then
               (case address_bytes (split_dot (value record')) of
                  Inl e \<Rightarrow> Inl e
                | Inr address \<Rightarrow> Inr (pointer @ type_part @ class_part @ ttl_part @ [0, 4] @ address))
             else Inr (pointer @ type_part @ class_part @ ttl_part))"

fun build_answers_loop :: "bytes \<Rightarrow> rr list \<Rightarrow> string \<Rightarrow> string \<Rightarrow> error + bytes" where
  "build_answers_loop Answers [] qtype qclass = Inr Answers"
| "build_answers_loop Answers (record' # records) qtype qclass =
     (case answer_block record' qtype qclass of
        Inl e \<Rightarrow> Inl e
      | Inr block \<Rightarrow> build_answers_loop (Answers @ block) records qtype qclass)"

definition build_answers :: "rr list \<Rightarrow> string \<Rightarrow> string \<Rightarrow> error + bytes" where
  "build_answers records qtype qclass = build_answers_loop [] records qtype qclass"

subsection \<open>\<^verbatim>\<open>Handler.build_flags\<close>\<close>

text \<open>\<^verbatim>\<open>str(n)\<close> for an integer: decimal digits, with a minus sign when negative.\<close>

fun str_nat :: "nat \<Rightarrow> string" where
  "str_nat n = (if n < 10 then [char_of (48 + n)] else str_nat (n div 10) @ [char_of (48 + n mod 10)])"

definition py_str :: "int \<Rightarrow> string" where
  "py_str i = (if i < 0 then CHR ''-'' # str_nat (nat (- i)) else str_nat (nat i))"

text \<open>\<^verbatim>\<open>ord(b)\<close> on a bytes value: its single byte, TypeError for any other length.\<close>

definition py_ord :: "bytes \<Rightarrow> error + int" where
  "py_ord bs = (case bs of [b] \<Rightarrow> Inr (uint b) | _ \<Rightarrow> Inl TypeError)"

text \<open>
  The loop \<^verbatim>\<open>for bit in range(1, 5): OPCODE += str(ord(byte1) & (1 << bit))\<close>
  appends the decimal text of the masked value, and
  \<^verbatim>\<open>int(QR + OPCODE + AA + TC + RD, 2)\<close> then reads the whole string in base 2.
\<close>

definition build_flags :: "bytes \<Rightarrow> error + bytes" where
  "build_flags flags =
     (let byte1 = take 1 flags;
          byte2 = take 1 (drop 1 flags)
      in case py_ord byte1 of
           Inl e \<Rightarrow> Inl e
         | Inr b \<Rightarrow>
             (let QR = ''1'';
                  OPCODE = concat (map (\<lambda>bit. py_str (b AND push_bit bit 1)) [1..<5]);
                  AA = ''1''; TC = ''0''; RD = ''0''; RA = ''0''; Z = ''000''; RCODE = ''0000''
              in case py_int 2 (QR @ OPCODE @ AA @ TC @ RD) of
                   Inl e \<Rightarrow> Inl e
                 | Inr hi \<Rightarrow>
                     (case to_bytes hi 1 of
                        Inl e \<Rightarrow> Inl e
                      | Inr hi_byte \<Rightarrow>
                          (case py_int 2 (RA @ Z @ RCODE) of
                             Inl e \<Rightarrow> Inl e
                           | Inr lo \<Rightarrow>
                               (case to_bytes lo 1 of
                                  Inl e \<Rightarrow> Inl e
                                | Inr lo_byte \<Rightarrow> Inr (hi_byte @ lo_byte))))))"

subsection \<open>\<^verbatim>\<open>Handler.get_domain_and_QTYPE\<close>\<close>

text \<open>
  The loop \<^verbatim>\<open>for byte in data\<close> with its six variables. Leaving the loop by
  \<^verbatim>\<open>break\<close> skips the increment of \<^verbatim>\<open>QNAME_length\<close>; running out of bytes
  leaves whatever has been collected so far. Nothing in the loop can raise.
\<close>

fun decode_loop ::
  "string list \<Rightarrow> string \<Rightarrow> nat \<Rightarrow> nat \<Rightarrow> nat \<Rightarrow> nat \<Rightarrow> bytes \<Rightarrow> string list \<times> nat" where
  "decode_loop domain domain_string char_count QNAME_length is_appended expected_length [] =
     (domain, QNAME_length)"
| "decode_loop domain domain_string char_count QNAME_length is_appended expected_length (byte # data) =
     (if is_appended = 1 then
        (let domain_string1 = (if byte \<noteq> 0 then domain_string @ [char_of (unat byte)] else domain_string);
             char_count1 = char_count + 1;
             full = (char_count1 = expected_length);
             domain1 = (if full then domain @ [domain_string1] else domain);
             domain_string2 = (if full then [] else domain_string1);
             char_count2 = (if full then 0 else char_count1);
             is_appended1 = (if full then 0 else is_appended)
         in if byte = 0 then (domain1 @ [domain_string2], QNAME_length)
            else decode_loop domain1 domain_string2 char_count2 (QNAME_length + 1) is_appended1
                   expected_length data)
      else decode_loop domain domain_string char_count (QNAME_length + 1) 1 (unat byte) data)"

definition get_domain_and_QTYPE :: "bytes \<Rightarrow> string list \<times> bytes" where
  "get_domain_and_QTYPE data =
     (let (domain, QNAME_length) = decode_loop [] [] 0 0 0 0 data;
          QTYPE = take 2 (drop QNAME_length data)
      in (domain, QTYPE))"

subsection \<open>\<^verbatim>\<open>Zone.get_zone_by_domain\<close> and \<^verbatim>\<open>Handler.get_records\<close>\<close>

text \<open>
  \<^verbatim>\<open>try: zone = zones[zone_name]  except: zone = {}  finally: return zone\<close>:
  a missing key gives the empty dictionary.
\<close>

definition get_zone_by_domain :: "zones \<Rightarrow> string list \<Rightarrow> zone" where
  "get_zone_by_domain zones domain =
     (let zone_name = join_dot domain
      in case zones zone_name of Some zone \<Rightarrow> zone | None \<Rightarrow> Map.empty)"

text \<open>\<^verbatim>\<open>zone[qtype]\<close> raises KeyError when the zone has no such key.\<close>

definition get_records :: "bytes \<Rightarrow> zones \<Rightarrow> error + (rr list \<times> string \<times> string list \<times> string)" where
  "get_records data zones =
     (let (domain, QTYPE) = get_domain_and_QTYPE data;
          qclass = ''IN'';
          qtype = (if QTYPE = [0, 1] then ''a'' else []);
          zone = get_zone_by_domain zones domain
      in case zone qtype of
           None \<Rightarrow> Inl KeyError
         | Some records \<Rightarrow> Inr (records, qtype, domain, qclass))"

subsection \<open>\<^verbatim>\<open>Handler.build_queries\<close>\<close>

text \<open>The inner loop \<^verbatim>\<open>for char in part: Queries += ord(char).to_bytes(1, ...)\<close>.\<close>

fun char_bytes :: "string \<Rightarrow> error + bytes" where
  "char_bytes [] = Inr []"
| "char_bytes (c # cs) =
     (case to_bytes (of_char c) 1 of
        Inl e \<Rightarrow> Inl e
      | Inr b \<Rightarrow> (case char_bytes cs of Inl e \<Rightarrow> Inl e | Inr bs \<Rightarrow> Inr (b @ bs)))"

text \<open>The name part: each label as its length byte and its characters.\<close>

fun name_part :: "bytes \<Rightarrow> string list \<Rightarrow> error + bytes" where
  "name_part Queries [] = Inr Queries"
| "name_part Queries (part # domain) =
     (case to_bytes (int (length part)) 1 of
        Inl e \<Rightarrow> Inl e
      | Inr len_byte \<Rightarrow>
          (case char_bytes part of
             Inl e \<Rightarrow> Inl e
           | Inr chars \<Rightarrow> name_part (Queries @ len_byte @ chars) domain))"

definition build_queries :: "string list \<Rightarrow> string \<Rightarrow> error + bytes" where
  "build_queries domain qtype =
     (case name_part [] domain of
        Inl e \<Rightarrow> Inl e
      | Inr name \<Rightarrow> Inr (name @ (if qtype = ''a'' then [0, 1] else []) @ [0, 1]))"

subsection \<open>\<^verbatim>\<open>Handler.build_header\<close> and \<^verbatim>\<open>Handler.build_response\<close>\<close>

definition build_header :: "bytes \<Rightarrow> rr list \<Rightarrow> error + bytes" where
  "build_header data records =
     (let Transaction_ID = take 2 data
      in case build_flags (take 2 (drop 2 data)) of
           Inl e \<Rightarrow> Inl e
         | Inr Flags \<Rightarrow>
             (let QDCOUNT = [0, 1]
              in case to_bytes (int (length records)) 2 of
                   Inl e \<Rightarrow> Inl e
                 | Inr ANCOUNT \<Rightarrow>
                     (let NSCOUNT = [0, 0]; ARCOUNT = [0, 0]
                      in Inr (Transaction_ID @ Flags @ QDCOUNT @ ANCOUNT @ NSCOUNT @ ARCOUNT))))"

definition build_response :: "zones \<Rightarrow> bytes \<Rightarrow> error + bytes" where
  "build_response zones data =
     (case get_records (drop 12 data) zones of
        Inl e \<Rightarrow> Inl e
      | Inr (records, qtype, domain, qclass) \<Rightarrow>
          (case build_header data records of
             Inl e \<Rightarrow> Inl e
           | Inr DNS_header \<Rightarrow>
               (case build_queries domain qtype of
                  Inl e \<Rightarrow> Inl e
                | Inr Queries \<Rightarrow>
                    (case build_answers records qtype qclass of
                       Inl e \<Rightarrow> Inl e
                     | Inr Answers \<Rightarrow> Inr (DNS_header @ Queries @ Answers)))))"

subsection \<open>The wire format of a question name\<close>

text \<open>
  What a client sends: each label as one length byte followed by that many bytes, and
  a zero byte after the last label. These definitions describe the decoder's input; they
  are used to state what it returns.
\<close>

definition wire_label :: "bytes \<Rightarrow> bytes" where
  "wire_label l = word_of_nat (length l) # l"

definition wire_labels :: "bytes list \<Rightarrow> bytes" where
  "wire_labels ls = concat (map wire_label ls)"

definition wire_name :: "bytes list \<Rightarrow> bytes" where
  "wire_name ls = wire_labels ls @ [0]"

text \<open>The text of a label as the decoder builds it, one \<^verbatim>\<open>chr(byte)\<close> per byte.\<close>

definition label_string :: "bytes \<Rightarrow> string" where
  "label_string l = map (\<lambda>b. char_of (unat b)) l"

text \<open>A label of 1 to 255 bytes, none of them zero.\<close>

definition plain_label :: "bytes \<Rightarrow> bool" where
  "plain_label l = (l \<noteq> [] \<and> length l \<le> 255 \<and> 0 \<notin> set l)"

subsection \<open>Sample data\<close>

text \<open>
  A store with the one zone \<^verbatim>\<open>example.com.\<close> holding one address record, the header
  of a standard query (id AB CD, flags 01 00, one question), and the labels of
  \<^verbatim>\<open>example.com\<close> and \<^verbatim>\<open>example.org\<close>.
\<close>

definition zone_store_example :: zones where
  "zone_store_example = [''example.com.'' \<mapsto> [''a'' \<mapsto> [\<lparr>ttl = 60, value = ''10.0.0.1''\<rparr>]]]"

definition query_header_example :: bytes where
  "query_header_example = [0xAB, 0xCD, 0x01, 0x00, 0x00, 0x01, 0x00, 0x00, 0x00, 0x00, 0x00, 0x00]"

definition example_com :: "bytes list" where
  "example_com = [[0x65, 0x78, 0x61, 0x6D, 0x70, 0x6C, 0x65], [0x63, 0x6F, 0x6D]]"

definition example_org :: "bytes list" where
  "example_org = [[0x65, 0x78, 0x61, 0x6D, 0x70, 0x6C, 0x65], [0x6F, 0x72, 0x67]]"

section \<open>Properties\<close>

lemma be_bytes_1: "be_bytes 1 n = [word_of_int (n mod 256)]"
  by (simp add: numeral_eq_Suc)


lemma be_bytes_4:
  "be_bytes 4 n = [word_of_int (n div 256 div 256 div 256 mod 256),
                   word_of_int (n div 256 div 256 mod 256),
                   word_of_int (n div 256 mod 256), word_of_int (n mod 256)]"
  by (simp add: numeral_eq_Suc)

subsection \<open>The decoder on length-prefixed labels\<close>

lemma decode_label_chars:
  "0 \<notin> set l \<Longrightarrow> l \<noteq> [] \<Longrightarrow> char_count + length l = expected_length \<Longrightarrow>
   decode_loop domain ds char_count ql (Suc 0) expected_length (l @ rest)
     = decode_loop (domain @ [ds @ label_string l]) [] 0 (ql + length l) 0 expected_length rest"
proof (induction l arbitrary: ds char_count ql)
  case Nil
  then show ?case by simp
next
  case (Cons x xs)
  show ?case
  proof (cases "xs = []")
    case True
    with Cons.prems show ?thesis by (simp add: label_string_def Let_def)
  next
    case False
    with Cons.prems have "char_count + 1 \<noteq> expected_length" by auto
    moreover have "decode_loop domain (ds @ [char_of (unat x)]) (char_count + 1) (ql + 1) (Suc 0) expected_length (xs @ rest)
      = decode_loop (domain @ [(ds @ [char_of (unat x)]) @ label_string xs]) [] 0 (ql + 1 + length xs) 0 expected_length rest"
      using Cons.prems False by (intro Cons.IH) auto
    ultimately show ?thesis using Cons.prems by (simp add: label_string_def Let_def)
  qed
qed

lemma decode_partial_label:
  "0 \<notin> set l \<Longrightarrow> char_count + length l < expected_length \<Longrightarrow>
   decode_loop domain ds char_count ql (Suc 0) expected_length l = (domain, ql + length l)"
  by (induction l arbitrary: ds char_count ql) (auto simp: Let_def)

lemma unat_length_byte: "n \<le> 255 \<Longrightarrow> unat (word_of_nat n :: byte) = n"
  by (simp add: unat_of_nat)

lemma decode_labels:
  "\<forall>l \<in> set ls. plain_label l \<Longrightarrow>
   decode_loop domain [] 0 ql 0 el (wire_labels ls @ rest)
     = decode_loop (domain @ map label_string ls) [] 0 (ql + length (wire_labels ls)) 0
         (if ls = [] then el else length (last ls)) rest"
proof (induction ls arbitrary: domain ql el)
  case Nil
  then show ?case by (simp add: wire_labels_def)
next
  case (Cons l ls)
  then have l: "0 \<notin> set l" "l \<noteq> []" "length l \<le> 255" and ls: "\<forall>l \<in> set ls. plain_label l"
    by (auto simp: plain_label_def)
  have "decode_loop domain [] 0 ql 0 el (wire_labels (l # ls) @ rest)
      = decode_loop domain [] 0 (ql + 1) (Suc 0) (length l) (l @ wire_labels ls @ rest)"
    using l by (simp add: wire_labels_def wire_label_def unat_length_byte)
  also have "\<dots> = decode_loop (domain @ [label_string l]) [] 0 (ql + 1 + length l) 0 (length l) (wire_labels ls @ rest)"
    using decode_label_chars [of l 0 "length l" domain "[]" "ql + 1" "wire_labels ls @ rest"] l by simp
  also have "\<dots> = decode_loop ((domain @ [label_string l]) @ map label_string ls) [] 0
        (ql + 1 + length l + length (wire_labels ls)) 0 (if ls = [] then length l else length (last ls)) rest"
    by (rule Cons.IH [OF ls])
  finally show ?case by (simp add: wire_labels_def wire_label_def add.assoc)
qed

lemma decode_terminator:
  "decode_loop domain [] 0 ql 0 el (0 # 0 # rest) = (domain @ [[]], ql + 1)"
  by (simp add: Let_def)

lemma decode_question:
  assumes "\<forall>l \<in> set ls. plain_label l"
  shows "get_domain_and_QTYPE (wire_name ls @ 0 # rest) = (map label_string ls @ [[]], take 2 (0 # rest))"
proof -
  have "decode_loop [] [] 0 0 0 0 (wire_labels ls @ 0 # 0 # rest)
      = (map label_string ls @ [[]], length (wire_labels ls) + 1)"
    using decode_labels [OF assms, of "[]" 0 0 "0 # 0 # rest"] by (simp add: decode_terminator)
  then show ?thesis
    by (simp add: get_domain_and_QTYPE_def wire_name_def)
qed

lemma to_bytes_byte: "to_bytes (uint (b :: byte)) (Suc 0) = Inr [b]"
proof -
  have "uint b < 256" using uint_lt2p [of b] by simp
  then show ?thesis by (simp add: to_bytes_def)
qed

lemma unat_byte_less: "unat (b :: byte) < 256"
  using unsigned_less [of b] by simp

lemma ord_chr_byte: "(of_char (char_of (unat (b :: byte))) :: int) = uint b"
proof -
  have "(of_char (char_of (unat b)) :: int) = int (of_char (char_of (unat b)))"
    by (simp only: of_nat_of_char)
  also have "\<dots> = int (unat b)"
    using unat_byte_less [of b] by simp
  finally show ?thesis by (simp only: uint_nat)
qed

lemma char_bytes_label_string: "char_bytes (label_string l) = Inr l"
  by (induction l) (simp_all add: label_string_def ord_chr_byte to_bytes_byte)

lemma to_bytes_length: "n \<le> 255 \<Longrightarrow> to_bytes (int n) (Suc 0) = Inr [word_of_nat n]"
  by (simp add: to_bytes_def)

lemma name_part_labels:
  "\<forall>l \<in> set ls. length l \<le> 255 \<Longrightarrow>
   name_part Queries (map label_string ls @ [[]]) = Inr (Queries @ wire_name ls)"
proof (induction ls arbitrary: Queries)
  case Nil
  then show ?case by (simp add: wire_name_def wire_labels_def to_bytes_def)
next
  case (Cons l ls)
  then have "to_bytes (int (length (label_string l))) (Suc 0) = Inr [word_of_nat (length l)]"
    by (simp add: to_bytes_length label_string_def)
  with Cons show ?case
    by (simp add: char_bytes_label_string wire_name_def wire_labels_def wire_label_def)
qed

subsection \<open>The encoder's fields\<close>

lemma join_dot_trailing: "ps \<noteq> [] \<Longrightarrow> join_dot (ps @ [[]]) = join_dot ps @ ''.''"
  by (induction ps rule: join_dot.induct) simp_all







lemma build_answers_loop_blocks:
  "build_answers_loop Answers records qtype qclass = Inr out \<Longrightarrow>
   \<exists>blocks. list_all2 (\<lambda>r b. answer_block r qtype qclass = Inr b) records blocks
     \<and> out = Answers @ concat blocks"
proof (induction records arbitrary: Answers)
  case Nil
  then show ?case by simp
next
  case (Cons r rs)
  from Cons.prems obtain block where b: "answer_block r qtype qclass = Inr block"
    and rest: "build_answers_loop (Answers @ block) rs qtype qclass = Inr out"
    by (auto split: sum.splits)
  from Cons.IH [OF rest] obtain blocks where
    "list_all2 (\<lambda>r b. answer_block r qtype qclass = Inr b) rs blocks" "out = (Answers @ block) @ concat blocks"
    by blast
  with b have "list_all2 (\<lambda>r b. answer_block r qtype qclass = Inr b) (r # rs) (block # blocks)
      \<and> out = Answers @ concat (block # blocks)"
    by simp
  then show ?case by blast
qed

lemma answer_block_pointer:
  "answer_block r qtype qclass = Inr b \<Longrightarrow> take 2 b = [0xC0, 0x0C]"
  by (auto simp: answer_block_def Let_def split: sum.splits if_splits)

lemma address_bytes_out_of_range:
  "part \<in> set parts \<Longrightarrow> py_int 10 part = Inr n \<Longrightarrow> n < 0 \<or> 255 < n \<Longrightarrow> isl (address_bytes parts)"
  by (induction parts) (auto simp: to_bytes_def split: sum.splits)

lemma build_answers_loop_fails:
  "r \<in> set records \<Longrightarrow> isl (answer_block r qtype qclass) \<Longrightarrow>
   isl (build_answers_loop Answers records qtype qclass)"
  by (induction records arbitrary: Answers) (auto split: sum.splits)

subsection \<open>The claims\<close>

text \<open>
  C1, as stated, at a concrete input. The store holds only \<^verbatim>\<open>example.com.\<close> and
  the query asks for \<^verbatim>\<open>example.org\<close>. The lookup key \<^verbatim>\<open>example.org.\<close> is not
  in the store, \<^verbatim>\<open>get_zone_by_domain\<close> returns the empty dictionary (the same kind of
  value as a hit, no separate outcome), and no response is built:
  \<^verbatim>\<open>zone[qtype]\<close> raises KeyError.
\<close>

theorem zone_miss_counterexample:
  "fst (get_domain_and_QTYPE (wire_name example_org @ [0x00, 0x01, 0x00, 0x01])) = [''example'', ''org'', '''']
   \<and> zone_store_example (join_dot [''example'', ''org'', '''']) = None
   \<and> get_zone_by_domain zone_store_example [''example'', ''org'', ''''] = Map.empty
   \<and> build_response zone_store_example (query_header_example @ wire_name example_org @ [0x00, 0x01, 0x00, 0x01])
       = Inl KeyError"
proof -
  have "fst (get_domain_and_QTYPE (wire_name example_org @ [0x00, 0x01, 0x00, 0x01])) = [''example'', ''org'', '''']"
    by code_simp
  moreover have "build_response zone_store_example (query_header_example @ wire_name example_org @ [0x00, 0x01, 0x00, 0x01])
       = Inl KeyError"
    by code_simp
  ultimately show ?thesis
    by (simp add: get_zone_by_domain_def zone_store_example_def)
qed

text \<open>
  C1, amended. For every query whose decoded name, joined with dots, is not an origin
  key of the zone store, the zone lookup returns the empty zone: a zone with no entry for
  any type tag, not a distinct "no such zone" outcome.
\<close>

theorem zone_miss_gives_empty_zone:
  assumes "zones (join_dot (fst (get_domain_and_QTYPE data))) = None"
  shows "get_zone_by_domain zones (fst (get_domain_and_QTYPE data)) = Map.empty"
  using assms by (simp add: get_zone_by_domain_def)

text \<open>C1, amended, on the query for \<^verbatim>\<open>example.org\<close> against the sample store.\<close>

theorem zone_miss_gives_empty_zone_witness:
  "zone_store_example (join_dot (fst (get_domain_and_QTYPE (wire_name example_org @ [0x00, 0x01, 0x00, 0x01])))) = None
   \<and> get_zone_by_domain zone_store_example (fst (get_domain_and_QTYPE (wire_name example_org @ [0x00, 0x01, 0x00, 0x01])))
       = Map.empty"
proof -
  have d: "fst (get_domain_and_QTYPE (wire_name example_org @ [0x00, 0x01, 0x00, 0x01])) = [''example'', ''org'', '''']"
    by code_simp
  have h: "zone_store_example (join_dot (fst (get_domain_and_QTYPE (wire_name example_org @ [0x00, 0x01, 0x00, 0x01])))) = None"
    by (simp add: d zone_store_example_def)
  show ?thesis
    by (intro conjI h
        zone_miss_gives_empty_zone [of zone_store_example "wire_name example_org @ [0x00, 0x01, 0x00, 0x01]", OF h])
qed

text \<open>
  C2. The claim asks for the flags \<^verbatim>\<open>0x80 | (opcode << 3) | 0x04\<close>, 00 for every
  opcode 0 to 15. With the opcode placed in its field (bits 3 to 6 of the first byte, the
  other bits clear), \<^verbatim>\<open>build_flags\<close> returns 84 00 for the opcodes 0, 4, 8 and 12
  and raises ValueError for the twelve others: the loop reads bits 1 to 4 of the byte, so
  it sees only the two low bits of the opcode, and for a set bit it appends the decimal
  text of the masked value (8 or 16), which \<^verbatim>\<open>int(..., 2)\<close> rejects. Only opcode 0
  gets the flags of the claim.
\<close>

theorem build_flags_opcodes:
  "map (\<lambda>opcode. build_flags [push_bit 3 opcode, 0x00]) [0, 1, 2, 3, 4, 5, 6, 7, 8, 9, 10, 11, 12, 13, 14, 15]
     = [Inr [0x84, 0x00], Inl ValueError, Inl ValueError, Inl ValueError,
        Inr [0x84, 0x00], Inl ValueError, Inl ValueError, Inl ValueError,
        Inr [0x84, 0x00], Inl ValueError, Inl ValueError, Inl ValueError,
        Inr [0x84, 0x00], Inl ValueError, Inl ValueError, Inl ValueError]"
  by code_simp

text \<open>
  C3, as stated, at two concrete inputs. The name \<^verbatim>\<open>a\<close> followed by QTYPE 01 01 is
  decoded with the QTYPE bytes as a third label and re-encoded as 01 61 02 01 01; the
  name whose single label is the two bytes 61 00 is decoded as the label \<^verbatim>\<open>a\<close> and
  re-encoded as 01 61 00. Neither is the original name.
\<close>

theorem name_roundtrip_counterexample:
  "wire_name [[0x61]] = [1, 0x61, 0]
   \<and> name_part [] (fst (get_domain_and_QTYPE (wire_name [[0x61]] @ [0x01, 0x01, 0x00, 0x01]))) = Inr [1, 0x61, 2, 1, 1]
   \<and> wire_name [[0x61, 0x00]] = [2, 0x61, 0, 0]
   \<and> name_part [] (fst (get_domain_and_QTYPE (wire_name [[0x61, 0x00]] @ [0x00, 0x01, 0x00, 0x01]))) = Inr [1, 0x61, 0]"
  by code_simp

text \<open>
  C3, amended. For every name whose labels have 1 to 255 bytes, none of them zero, and
  which is followed in the buffer by a zero byte (the high byte of QTYPE, as for the address
  type 00 01), decoding and then re-encoding the label list gives back exactly the bytes of
  the name; the question encoder appends the type and class after them.
\<close>

theorem name_roundtrip:
  assumes "list_all plain_label ls"
  shows "name_part [] (fst (get_domain_and_QTYPE (wire_name ls @ 0 # rest))) = Inr (wire_name ls)
       \<and> build_queries (fst (get_domain_and_QTYPE (wire_name ls @ 0 # rest))) qtype
           = Inr (wire_name ls @ (if qtype = ''a'' then [0, 1] else []) @ [0, 1])"
proof -
  from assms have p: "\<forall>l \<in> set ls. plain_label l"
    by (simp add: list_all_iff)
  then have "\<forall>l \<in> set ls. length l \<le> 255"
    by (simp add: plain_label_def)
  then have "name_part [] (map label_string ls @ [[]]) = Inr (wire_name ls)"
    using name_part_labels [of ls "[]"] by simp
  then show ?thesis
    by (simp add: decode_question [OF p] build_queries_def)
qed

text \<open>C3, amended, on the question \<^verbatim>\<open>example.com\<close> of address type.\<close>

theorem name_roundtrip_witness:
  "list_all plain_label example_com
   \<and> name_part [] (fst (get_domain_and_QTYPE (wire_name example_com @ 0 # [1, 0, 1]))) = Inr (wire_name example_com)
   \<and> build_queries (fst (get_domain_and_QTYPE (wire_name example_com @ 0 # [1, 0, 1]))) ''a''
       = Inr (wire_name example_com @ [0, 1] @ [0, 1])"
proof -
  have p: "list_all plain_label example_com"
    by code_simp
  show ?thesis
    using p name_roundtrip [OF p, of "[1, 0, 1]" "''a''"] by simp
qed

text \<open>
  C4, as stated, at two concrete inputs. The buffer 07 65 78 61 announces a label of
  seven bytes and holds three: the decoder returns the empty label list and an empty
  QTYPE, with no error. The buffer 07 65 78 00 01 announces seven bytes and holds four:
  the decoder returns the partial name \<^verbatim>\<open>ex\<close> with QTYPE 00 01, and with a zone
  \<^verbatim>\<open>ex\<close> in the store the request is answered.
\<close>

theorem truncated_label_counterexample:
  "get_domain_and_QTYPE [0x07, 0x65, 0x78, 0x61] = ([], [])
   \<and> get_domain_and_QTYPE [0x07, 0x65, 0x78, 0x00, 0x01] = ([''ex''], [0, 1])
   \<and> build_response [''ex'' \<mapsto> [''a'' \<mapsto> [\<lparr>ttl = 60, value = ''10.0.0.1''\<rparr>]]]
        (query_header_example @ [0x07, 0x65, 0x78, 0x00, 0x01])
       = Inr ([0xAB, 0xCD, 0x84, 0x00, 0x00, 0x01, 0x00, 0x01, 0x00, 0x00, 0x00, 0x00]
              @ [2, 0x65, 0x78, 0, 1, 0, 1]
              @ [0xC0, 0x0C, 0, 1, 0, 1, 0, 0, 0, 60, 0, 4, 10, 0, 0, 1])"
  by code_simp

text \<open>
  C4, amended. For every buffer that ends inside a label (complete labels of 1 to 255
  non-zero bytes, then a length byte that announces more bytes than remain, the remaining
  bytes non-zero), the decoder signals no error: it returns the labels completed before
  the cut, without the partial label, and the empty slice as QTYPE.
\<close>

theorem truncated_label_decoded:
  assumes "list_all plain_label ls" and "0 \<notin> set partial" and "length partial < unat n"
  shows "get_domain_and_QTYPE (wire_labels ls @ n # partial) = (map label_string ls, [])"
proof -
  from assms(1) have p: "\<forall>l \<in> set ls. plain_label l"
    by (simp add: list_all_iff)
  have "decode_loop [] [] 0 0 0 0 (wire_labels ls @ n # partial)
      = (map label_string ls, length (wire_labels ls) + 1 + length partial)"
    using decode_labels [OF p, of "[]" 0 0 "n # partial"] assms(2,3)
    by (simp add: decode_partial_label)
  then show ?thesis
    by (simp add: get_domain_and_QTYPE_def)
qed

text \<open>C4, amended, on \<^verbatim>\<open>example\<close> followed by a label of three bytes cut after two.\<close>

theorem truncated_label_decoded_witness:
  "list_all plain_label [[0x65, 0x78, 0x61, 0x6D, 0x70, 0x6C, 0x65]]
   \<and> 0 \<notin> set [0x63, 0x6F :: byte] \<and> length [0x63, 0x6F :: byte] < unat (3 :: byte)
   \<and> get_domain_and_QTYPE (wire_labels [[0x65, 0x78, 0x61, 0x6D, 0x70, 0x6C, 0x65]] @ 3 # [0x63, 0x6F]) = ([''example''], [])"
proof -
  have p: "list_all plain_label [[0x65, 0x78, 0x61, 0x6D, 0x70, 0x6C, 0x65]]"
    by code_simp
  have z: "0 \<notin> set [0x63, 0x6F :: byte]"
    by simp
  have l: "length [0x63, 0x6F :: byte] < unat (3 :: byte)"
    by simp
  have m: "map label_string [[0x65, 0x78, 0x61, 0x6D, 0x70, 0x6C, 0x65]] = [''example'']"
    by code_simp
  show ?thesis
    using p z l truncated_label_decoded [OF p z l] by (simp only: m simp_thms)
qed

text \<open>
  C5. The claim asks for an empty record list and a response with ANCOUNT 0 when QTYPE
  is not 1. On the query for \<^verbatim>\<open>example.com\<close> with QTYPE 00 02 against the sample
  store, the decoder returns the name and QTYPE 00 02, the type tag stays \<^verbatim>\<open>''\<close>,
  and \<^verbatim>\<open>zone['']\<close> raises KeyError: no record list and no response.
\<close>

theorem other_qtype_raises:
  "get_domain_and_QTYPE (wire_name example_com @ [0x00, 0x02, 0x00, 0x01]) = ([''example'', ''com'', ''''], [0, 2])
   \<and> get_records (wire_name example_com @ [0x00, 0x02, 0x00, 0x01]) zone_store_example = Inl KeyError
   \<and> build_response zone_store_example (query_header_example @ wire_name example_com @ [0x00, 0x02, 0x00, 0x01])
       = Inl KeyError"
  by code_simp



text \<open>
  C7, as stated, at two concrete inputs. The question for the root name (no label, the
  zero byte, QTYPE 00 01) is decoded as the single empty label, the lookup key is the
  empty string, which has no trailing dot, and a zone stored under the empty origin
  matches. The question whose label is 61 00 62 is decoded as the one label
  \<^verbatim>\<open>a\<close>: the last element of the list is not the empty string.
\<close>

theorem trailing_dot_counterexample:
  "get_domain_and_QTYPE (wire_name [] @ [0x00, 0x01, 0x00, 0x01]) = ([''''], [0, 1])
   \<and> join_dot [''''] = ''''
   \<and> get_zone_by_domain ['''' \<mapsto> [''a'' \<mapsto> [\<lparr>ttl = 60, value = ''10.0.0.1''\<rparr>]]] [''''] ''a''
       = Some [\<lparr>ttl = 60, value = ''10.0.0.1''\<rparr>]
   \<and> get_domain_and_QTYPE (wire_name [[0x61, 0x00, 0x62]] @ [0x00, 0x01, 0x00, 0x01]) = ([''a''], [0, 0x62])"
proof -
  have "get_domain_and_QTYPE (wire_name [] @ [0x00, 0x01, 0x00, 0x01]) = ([''''], [0, 1])"
    by code_simp
  moreover have "get_domain_and_QTYPE (wire_name [[0x61, 0x00, 0x62]] @ [0x00, 0x01, 0x00, 0x01]) = ([''a''], [0, 0x62])"
    by code_simp
  ultimately show ?thesis
    by (simp add: get_zone_by_domain_def)
qed

text \<open>
  C7, amended. For every address-type question with at least one label, each label of 1
  to 255 bytes, none of them zero, the decoder returns the labels followed by the empty
  string, the dot-joined lookup key is the dotted name with a trailing dot, and the zone
  found is the one stored under exactly that key, the empty zone when there is none.
\<close>

theorem lookup_key_trailing_dot:
  assumes "ls \<noteq> []" and "list_all plain_label ls"
  shows "get_domain_and_QTYPE (wire_name ls @ [0, 1] @ rest) = (map label_string ls @ [''''], [0, 1])
       \<and> join_dot (map label_string ls @ ['''']) = join_dot (map label_string ls) @ ''.''
       \<and> get_zone_by_domain zones (map label_string ls @ [''''])
           = (case zones (join_dot (map label_string ls) @ ''.'') of Some zone \<Rightarrow> zone | None \<Rightarrow> Map.empty)"
proof -
  from assms(2) have p: "\<forall>l \<in> set ls. plain_label l"
    by (simp add: list_all_iff)
  have d: "get_domain_and_QTYPE (wire_name ls @ [0, 1] @ rest) = (map label_string ls @ [''''], [0, 1])"
    using decode_question [OF p, of "1 # rest"] by simp
  have j: "join_dot (map label_string ls @ ['''']) = join_dot (map label_string ls) @ ''.''"
    using assms(1) by (simp add: join_dot_trailing)
  show ?thesis
    using d j by (simp add: get_zone_by_domain_def)
qed

text \<open>C7, amended, on the question \<^verbatim>\<open>example.com\<close> against the sample store.\<close>

theorem lookup_key_trailing_dot_witness:
  "example_com \<noteq> [] \<and> list_all plain_label example_com
   \<and> get_domain_and_QTYPE (wire_name example_com @ [0, 1] @ [0, 1]) = ([''example'', ''com'', ''''], [0, 1])
   \<and> join_dot [''example'', ''com'', ''''] = ''example.com.''
   \<and> get_zone_by_domain zone_store_example [''example'', ''com'', ''''] ''a''
       = Some [\<lparr>ttl = 60, value = ''10.0.0.1''\<rparr>]"
proof -
  have n: "example_com \<noteq> []"
    by (simp add: example_com_def)
  have p: "list_all plain_label example_com"
    by code_simp
  have m: "map label_string example_com = [''example'', ''com'']"
    by code_simp
  show ?thesis
    using n p lookup_key_trailing_dot [OF n p, of "[0, 1]" zone_store_example]
    by (simp add: m zone_store_example_def)
qed

text \<open>
  C8. Whenever the answers are built, the answer section is the concatenation of one
  block per record of the list, in order, and every block begins with the two bytes
  C0 0C.
\<close>

theorem answer_blocks_start_with_pointer:
  assumes "build_answers records qtype qclass = Inr Answers"
  shows "\<exists>blocks. list_all2 (\<lambda>r b. answer_block r qtype qclass = Inr b) records blocks
           \<and> Answers = concat blocks
           \<and> list_all (\<lambda>b. take 2 b = [0xC0, 0x0C]) blocks"
proof -
  from assms obtain blocks where
    b: "list_all2 (\<lambda>r b. answer_block r qtype qclass = Inr b) records blocks" "Answers = concat blocks"
    unfolding build_answers_def by (auto dest: build_answers_loop_blocks)
  have "take 2 b = [0xC0, 0x0C]" if "b \<in> set blocks" for b
  proof -
    from that b(1) obtain r where "answer_block r qtype qclass = Inr b"
      by (auto simp: list_all2_conv_all_nth in_set_conv_nth)
    then show ?thesis by (rule answer_block_pointer)
  qed
  then have "list_all (\<lambda>b. take 2 b = [0xC0, 0x0C]) blocks"
    by (simp add: list_all_iff)
  with b show ?thesis by blast
qed

text \<open>C8 on a list of two address records.\<close>

theorem answer_blocks_start_with_pointer_witness:
  "build_answers [\<lparr>ttl = 60, value = ''10.0.0.1''\<rparr>, \<lparr>ttl = 300, value = ''93.184.216.34''\<rparr>] ''a'' ''IN''
     = Inr ([0xC0, 0x0C, 0, 1, 0, 1, 0, 0, 0, 60, 0, 4, 10, 0, 0, 1]
            @ [0xC0, 0x0C, 0, 1, 0, 1, 0, 0, 1, 44, 0, 4, 93, 184, 216, 34])
   \<and> (\<exists>blocks. list_all2 (\<lambda>r b. answer_block r ''a'' ''IN'' = Inr b)
          [\<lparr>ttl = 60, value = ''10.0.0.1''\<rparr>, \<lparr>ttl = 300, value = ''93.184.216.34''\<rparr>] blocks
        \<and> [0xC0, 0x0C, 0, 1, 0, 1, 0, 0, 0, 60, 0, 4, 10, 0, 0, 1]
            @ [0xC0, 0x0C, 0, 1, 0, 1, 0, 0, 1, 44, 0, 4, 93, 184, 216, 34] = concat blocks
        \<and> list_all (\<lambda>b. take 2 b = [0xC0, 0x0C]) blocks)"
proof -
  have a: "build_answers [\<lparr>ttl = 60, value = ''10.0.0.1''\<rparr>, \<lparr>ttl = 300, value = ''93.184.216.34''\<rparr>] ''a'' ''IN''
     = Inr ([0xC0, 0x0C, 0, 1, 0, 1, 0, 0, 0, 60, 0, 4, 10, 0, 0, 1]
            @ [0xC0, 0x0C, 0, 1, 0, 1, 0, 0, 1, 44, 0, 4, 93, 184, 216, 34])"
    by code_simp
  show ?thesis
    by (intro conjI a answer_blocks_start_with_pointer [OF a])
qed

text \<open>
  C9. The address record with ttl 300 and value 93.184.216.34 is encoded as the pointer
  C0 0C, TYPE 00 01, CLASS 00 01, then TTL 00 00 01 2C, RDLENGTH 00 04 and RDATA
  5D B8 D8 22, every field big-endian.
\<close>

theorem answer_block_example:
  "answer_block \<lparr>ttl = 300, value = ''93.184.216.34''\<rparr> ''a'' ''IN''
     = Inr ([0xC0, 0x0C] @ [0, 1] @ [0, 1] @ [0x00, 0x00, 0x01, 0x2C] @ [0x00, 0x04]
            @ [0x5D, 0xB8, 0xD8, 0x22])
   \<and> build_answers [\<lparr>ttl = 300, value = ''93.184.216.34''\<rparr>] ''a'' ''IN''
     = Inr [0xC0, 0x0C, 0, 1, 0, 1, 0x00, 0x00, 0x01, 0x2C, 0x00, 0x04, 0x5D, 0xB8, 0xD8, 0x22]"
  by (simp add: build_answers_def answer_block_def to_bytes_def be_bytes_4 be_bytes_1
      py_int_def strip_def is_space_def digit_val_def)

text \<open>
  C10. For every address-type record whose value has a dotted part that reads as an
  integer below 0 or above 255, encoding its answer block fails with an error, and so
  does encoding any record list that contains it: no byte is truncated.
\<close>

theorem octet_out_of_range_fails:
  assumes "record' \<in> set records"
    and "part \<in> set (split_dot (value record'))"
    and "py_int 10 part = Inr n"
    and "n < 0 \<or> 255 < n"
  shows "isl (answer_block record' ''a'' qclass) \<and> isl (build_answers records ''a'' qclass)"
proof -
  from assms(2-4) have "isl (address_bytes (split_dot (value record')))"
    by (rule address_bytes_out_of_range)
  then have "isl (answer_block record' ''a'' qclass)"
    by (auto simp: answer_block_def Let_def split: sum.splits)
  with assms(1) show ?thesis
    by (simp add: build_answers_def build_answers_loop_fails)
qed

text \<open>C10 on the record with value 10.0.0.256.\<close>

theorem octet_out_of_range_fails_witness:
  "\<lparr>ttl = 60, value = ''10.0.0.256''\<rparr> \<in> set [\<lparr>ttl = 60, value = ''10.0.0.256''\<rparr>]
   \<and> ''256'' \<in> set (split_dot (value \<lparr>ttl = 60, value = ''10.0.0.256''\<rparr>))
   \<and> py_int 10 ''256'' = Inr 256
   \<and> isl (answer_block \<lparr>ttl = 60, value = ''10.0.0.256''\<rparr> ''a'' ''IN'')
   \<and> isl (build_answers [\<lparr>ttl = 60, value = ''10.0.0.256''\<rparr>] ''a'' ''IN'')"
proof -
  have r: "\<lparr>ttl = 60, value = ''10.0.0.256''\<rparr> \<in> set [\<lparr>ttl = 60, value = ''10.0.0.256''\<rparr>]"
    by simp
  have p: "''256'' \<in> set (split_dot (value \<lparr>ttl = 60, value = ''10.0.0.256''\<rparr>))"
    by simp
  have n: "py_int 10 ''256'' = Inr 256"
    by code_simp
  have "isl (answer_block \<lparr>ttl = 60, value = ''10.0.0.256''\<rparr> ''a'' ''IN'')
      \<and> isl (build_answers [\<lparr>ttl = 60, value = ''10.0.0.256''\<rparr>] ''a'' ''IN'')"
    by (rule octet_out_of_range_fails [OF r p n]) simp
  with r p n show ?thesis by blast
qed

end
